theory Spec2Isabelle
  imports Main "HOL-Library.Word" "HOL-Library.Sublist"
begin

section \<open>SeaPP: the bitcode pre-processor (tools/seapp)\<close>

subsection \<open>Command-line options, passes, the module\<close>

text \<open>
  The \<^verbatim>\<open>llvm::cl::opt\<close> globals of the pre-processor, after
  \<^verbatim>\<open>ParseCommandLineOptions\<close>. A \<^verbatim>\<open>cl::opt<int>\<close> is a 32-bit
  integer; the pre-processor never computes with the four thresholds, it
  hands them to the aggregate pass.
\<close>

record options =
  InputFilename :: string
  OutputFilename :: string
  OutputAssembly :: bool
  DefaultDataLayout :: string
  InlineAll :: bool
  BOC :: bool
  IOC :: bool
  MixedSem :: bool
  SROA_Threshold :: "32 word"
  SROA_StructMemThreshold :: "32 word"
  SROA_ArrayElementThreshold :: "32 word"
  SROA_ScalarLoadThreshold :: "32 word"

text \<open>
  One constructor for each pass object that \<^verbatim>\<open>main\<close> creates, with the
  arguments \<^verbatim>\<open>main\<close> gives to its constructor. The two writer passes
  carry the name of the output file whose stream they write to.
\<close>

datatype pass =
    DataLayout string
  | PromoteVerifierCalls
  | InternalizePass "string list"
  | GlobalDCEPass
  | PromoteMemoryToRegisterPass
  | NondetInitPass
  | InstructionCombiningPass
  | CFGSimplificationPass
  | ScalarReplAggregatesPass "32 word" bool "32 word" "32 word" "32 word"
  | DeadNondetElimPass
  | LowerSwitchPass
  | DeadInstEliminationPass
  | RemoveUnreachableBlocksPass
  | MarkInternalInlinePass
  | AlwaysInlinerPass
  | LowerGvInitializers
  | UnifyFunctionExitNodesPass
  | LowerCstExprPass
  | CanAccessMemory
  | ShadowBufferBoundsCheckFuncPars
  | BufferBoundsCheck bool
  | IntegerOverflowCheck bool
  | MixedSemantics
  | VerifierPass
  | PrintModulePass string
  | BitcodeWriterPass string

text \<open>
  Of the parsed module, \<^verbatim>\<open>main\<close> reads the data-layout string only; the
  rest of the IR is opaque to it.
\<close>

record Module =
  getDataLayout :: string
  IR :: string

text \<open>
  \<^verbatim>\<open>llvm::PassManager\<close>: the passes in the order of the calls of
  \<^verbatim>\<open>add\<close>.
\<close>

type_synonym PassManager = "pass list"

definition add :: "PassManager \<Rightarrow> pass \<Rightarrow> PassManager" where
  "add pm p = pm @ [p]"

subsection \<open>Building the pass manager\<close>

text \<open>
  The part of \<^verbatim>\<open>main\<close> between the declaration of \<^verbatim>\<open>pass_manager\<close>
  and the call of \<^verbatim>\<open>pass_manager.run\<close>, statement by statement. The
  variable \<^verbatim>\<open>dl\<close> is a pointer that stays null when neither branch is
  taken; both branches build the layout from \<^verbatim>\<open>moduleDataLayout\<close>.
\<close>

definition build_pass_manager :: "options \<Rightarrow> Module \<Rightarrow> PassManager" where
  "build_pass_manager opts module =
    (let pass_manager = [];
         moduleDataLayout = getDataLayout module;
         dl = (if moduleDataLayout \<noteq> [] then Some (DataLayout moduleDataLayout)
               else if DefaultDataLayout opts \<noteq> [] then Some (DataLayout moduleDataLayout)
               else None);
         pass_manager = (case dl of Some d \<Rightarrow> add pass_manager d | None \<Rightarrow> pass_manager);
         pass_manager = add pass_manager PromoteVerifierCalls;
         pass_manager = add pass_manager (InternalizePass [''main'']);
         pass_manager = add pass_manager GlobalDCEPass;
         pass_manager = add pass_manager PromoteMemoryToRegisterPass;
         pass_manager = add pass_manager NondetInitPass;
         pass_manager = add pass_manager InstructionCombiningPass;
         pass_manager = add pass_manager CFGSimplificationPass;
         pass_manager = add pass_manager
           (ScalarReplAggregatesPass (SROA_Threshold opts) True
              (SROA_StructMemThreshold opts) (SROA_ArrayElementThreshold opts)
              (SROA_ScalarLoadThreshold opts));
         pass_manager = add pass_manager NondetInitPass;
         pass_manager = add pass_manager InstructionCombiningPass;
         pass_manager = add pass_manager CFGSimplificationPass;
         pass_manager = add pass_manager DeadNondetElimPass;
         pass_manager = add pass_manager LowerSwitchPass;
         pass_manager = add pass_manager DeadInstEliminationPass;
         pass_manager = add pass_manager RemoveUnreachableBlocksPass;
         pass_manager =
           (if InlineAll opts then
              (let pass_manager = add pass_manager MarkInternalInlinePass;
                   pass_manager = add pass_manager AlwaysInlinerPass;
                   pass_manager = add pass_manager GlobalDCEPass
               in pass_manager)
            else pass_manager);
         pass_manager = add pass_manager RemoveUnreachableBlocksPass;
         pass_manager = add pass_manager DeadInstEliminationPass;
         pass_manager = add pass_manager GlobalDCEPass;
         pass_manager = add pass_manager LowerGvInitializers;
         pass_manager = add pass_manager UnifyFunctionExitNodesPass;
         pass_manager =
           (if BOC opts then
              (let pass_manager = add pass_manager LowerCstExprPass;
                   pass_manager = add pass_manager CanAccessMemory;
                   pass_manager =
                     (if \<not> InlineAll opts
                      then add pass_manager ShadowBufferBoundsCheckFuncPars
                      else pass_manager);
                   pass_manager = add pass_manager (BufferBoundsCheck (InlineAll opts));
                   pass_manager = add pass_manager NondetInitPass
               in pass_manager)
            else pass_manager);
         pass_manager =
           (if IOC opts then
              (let pass_manager = add pass_manager LowerCstExprPass;
                   pass_manager = add pass_manager (IntegerOverflowCheck (InlineAll opts))
               in pass_manager)
            else pass_manager);
         pass_manager = add pass_manager RemoveUnreachableBlocksPass;
         pass_manager =
           (if MixedSem opts then
              (let pass_manager = add pass_manager MixedSemantics;
                   pass_manager = add pass_manager RemoveUnreachableBlocksPass
               in pass_manager)
            else pass_manager);
         pass_manager = add pass_manager VerifierPass;
         pass_manager =
           (if OutputFilename opts \<noteq> [] then
              (if OutputAssembly opts
               then add pass_manager (PrintModulePass (OutputFilename opts))
               else add pass_manager (BitcodeWriterPass (OutputFilename opts)))
            else pass_manager)
     in pass_manager)"

subsection \<open>The program around the pass manager\<close>

text \<open>
  What \<^verbatim>\<open>main\<close> calls and does not define: the IR reader (an error
  message when it returns a null module), the constructor of
  \<^verbatim>\<open>tool_output_file\<close> (the text it leaves in \<^verbatim>\<open>error_msg\<close>,
  empty when the file was opened), and \<^verbatim>\<open>PassManager::run\<close>, which
  gives back the rewritten module, or \<open>None\<close> when a pass ends the
  process and control never comes back to \<^verbatim>\<open>main\<close>.
\<close>

record environment =
  ParseIRFile :: "string \<Rightarrow> string + Module"
  open_output :: "string \<Rightarrow> string"
  run :: "PassManager \<Rightarrow> Module \<Rightarrow> Module option"

text \<open>
  \<^verbatim>\<open>llvm::tool_output_file\<close>: the file is deleted when the object dies
  unless \<^verbatim>\<open>keep()\<close> was called.
\<close>

record tool_output_file =
  Filename :: string
  Keep :: bool

text \<open>
  How a run ends: the value \<^verbatim>\<open>main\<close> returns (\<open>None\<close> when the
  process ended inside \<^verbatim>\<open>run\<close>), the variable \<^verbatim>\<open>output\<close> (a null
  pointer until the output file is opened) and what was written to
  \<^verbatim>\<open>llvm::errs()\<close>. Terminal colours are left out.
\<close>

record exit_state =
  returns :: "int option"
  output_file :: "tool_output_file option"
  errs :: string

definition main :: "environment \<Rightarrow> options \<Rightarrow> exit_state" where
  "main env opts =
    (let error_msg = []; output = None in
     case ParseIRFile env (InputFilename opts) of
       Inl err \<Rightarrow>
         \<lparr>returns = Some 3, output_file = output,
          errs = ''error: Bitcode was not properly read; '' @ err @ [CHR 0x0A]\<rparr>
     | Inr module \<Rightarrow>
         (let (output, error_msg) =
                (if OutputFilename opts \<noteq> []
                 then (Some \<lparr>Filename = OutputFilename opts, Keep = False\<rparr>,
                       open_output env (OutputFilename opts))
                 else (output, error_msg))
          in if error_msg \<noteq> [] then
               \<lparr>returns = Some 3, output_file = output,
                errs = ''error: '' @ error_msg @ [CHR 0x0A]\<rparr>
             else
               (let pass_manager = build_pass_manager opts module in
                case run env pass_manager module of
                  None \<Rightarrow> \<lparr>returns = None, output_file = output, errs = []\<rparr>
                | Some module' \<Rightarrow>
                    \<lparr>returns = Some 0,
                     output_file =
                       (if OutputFilename opts \<noteq> []
                        then map_option (\<lambda>out. out\<lparr>Keep := True\<rparr>) output
                        else output),
                     errs = []\<rparr>)))"

text \<open>
  The options that make up a pipeline configuration: the four flags, the
  four thresholds of the aggregate pass and the default data layout. Two
  option records are the same configuration when they agree on these; the
  file names and \<^verbatim>\<open>-S\<close> are not part of it.
\<close>

definition same_configuration :: "options \<Rightarrow> options \<Rightarrow> bool" where
  "same_configuration a b =
     (InlineAll a = InlineAll b \<and> BOC a = BOC b \<and> IOC a = IOC b \<and>
      MixedSem a = MixedSem b \<and>
      SROA_Threshold a = SROA_Threshold b \<and>
      SROA_StructMemThreshold a = SROA_StructMemThreshold b \<and>
      SROA_ArrayElementThreshold a = SROA_ArrayElementThreshold b \<and>
      SROA_ScalarLoadThreshold a = SROA_ScalarLoadThreshold b \<and>
      DefaultDataLayout a = DefaultDataLayout b)"

text \<open>The aggregate pass as \<^verbatim>\<open>main\<close> creates it from the options.\<close>

abbreviation SROA :: "options \<Rightarrow> pass" where
  "SROA opts \<equiv>
     ScalarReplAggregatesPass (SROA_Threshold opts) True
       (SROA_StructMemThreshold opts) (SROA_ArrayElementThreshold opts)
       (SROA_ScalarLoadThreshold opts)"

subsection \<open>Sample runs\<close>

text \<open>
  The options of \<^verbatim>\<open>seapp in.bc\<close> (every option at its initial value:
  \<^verbatim>\<open>INT_MAX\<close> for three thresholds, \<open>-1\<close> for the fourth), a module
  that declares no data layout, and one that declares one.
\<close>

definition opts_default :: options where
  "opts_default =
     \<lparr>InputFilename = ''in.bc'', OutputFilename = [], OutputAssembly = False,
      DefaultDataLayout = [], InlineAll = False, BOC = False, IOC = False,
      MixedSem = False,
      SROA_Threshold = 0x7FFFFFFF, SROA_StructMemThreshold = 0x7FFFFFFF,
      SROA_ArrayElementThreshold = 0x7FFFFFFF, SROA_ScalarLoadThreshold = - 1\<rparr>"

definition module_plain :: Module where
  "module_plain = \<lparr>getDataLayout = [], IR = ''define i32 @main() { ret i32 0 }''\<rparr>"

definition module_layout :: Module where
  "module_layout =
     \<lparr>getDataLayout = ''e-p:64:64:64'', IR = ''define i32 @main() { ret i32 0 }''\<rparr>"

text \<open>
  A file system where \<^verbatim>\<open>in.bc\<close> holds \<open>module_plain\<close> and nothing else
  parses, every output file opens, and every pass runs to its end.
\<close>

definition env_sample :: environment where
  "env_sample =
     \<lparr>ParseIRFile = (\<lambda>f. if f = ''in.bc'' then Inr module_plain
                          else Inl ''expected top-level entity''),
      open_output = (\<lambda>p. []),
      run = (\<lambda>pm m. Some m)\<rparr>"

section \<open>The quantifier-elimination tool (tools/aeval/Ae.cpp)\<close>

text \<open>
  A C string is the list of its characters before the terminating zero, and
  \<^verbatim>\<open>argv\<close> the list of the \<^verbatim>\<open>argc\<close> argument strings; the result
  \<^verbatim>\<open>char *\<close> is \<open>None\<close> for \<^verbatim>\<open>NULL\<close>.

  \<^verbatim>\<open>int len = strlen(argv[i])\<close> converts a \<^verbatim>\<open>size_t\<close> to a 32-bit
  \<^verbatim>\<open>int\<close>: the length is cut to 32 bits and read as signed.
  \<^verbatim>\<open>strcmp(argv[i] + len - 5, ".smt2") == 0\<close> compares the string from
  offset \<open>len - 5\<close> on. The counters \<^verbatim>\<open>i\<close> and \<^verbatim>\<open>num1\<close> start at 1
  and never pass \<^verbatim>\<open>argc\<close>, itself an \<^verbatim>\<open>int\<close>, so they do not wrap.
\<close>

function getSmtFileName_loop ::
  "int \<Rightarrow> int \<Rightarrow> string list \<Rightarrow> int \<Rightarrow> int \<Rightarrow> string option" where
  "getSmtFileName_loop num argc argv num1 i =
     (if i < argc then
        (let len = sint (word_of_nat (length (argv ! nat i)) :: 32 word) in
         if len \<ge> 5 \<and> drop (nat (len - 5)) (argv ! nat i) = ''.smt2'' then
           (if num1 = num then Some (argv ! nat i)
            else getSmtFileName_loop num argc argv (num1 + 1) (i + 1))
         else getSmtFileName_loop num argc argv num1 (i + 1))
      else None)"
  by pat_completeness auto
termination
  by (relation "measure (\<lambda>(num, argc, argv, num1, i). nat (argc - i))") auto

declare getSmtFileName_loop.simps [simp del]

definition getSmtFileName :: "int \<Rightarrow> int \<Rightarrow> string list \<Rightarrow> string option" where
  "getSmtFileName num argc argv = getSmtFileName_loop num argc argv 1 1"

text \<open>
  The specification's reading, to compare with: the arguments at positions
  \<open>1..argc-1\<close> of length at least 5 that end in \<^verbatim>\<open>.smt2\<close>, in order, and
  the \<open>n\<close>-th of them (\<open>n\<close> counted from 1) when there are that many.
\<close>

definition ends_in_smt2 :: "string \<Rightarrow> bool" where
  "ends_in_smt2 s = (5 \<le> length s \<and> suffix ''.smt2'' s)"

definition nth_smt2_argument :: "nat \<Rightarrow> string list \<Rightarrow> string option" where
  "nth_smt2_argument n argv =
     (let found = filter ends_in_smt2 (drop 1 argv)
      in if 0 < n \<and> n \<le> length found then Some (found ! (n - 1)) else None)"

section \<open>The sequence of passes\<close>

text \<open>
  The sequence that \<open>build_pass_manager\<close> returns, written as one list:
  the fixed passes, and between them the passes of each conditional block.
\<close>

lemma build_pass_manager_sequence:
  "build_pass_manager opts module =
     (if getDataLayout module \<noteq> [] \<or> DefaultDataLayout opts \<noteq> []
      then [DataLayout (getDataLayout module)] else []) @
     [PromoteVerifierCalls, InternalizePass [''main''], GlobalDCEPass,
      PromoteMemoryToRegisterPass, NondetInitPass,
      InstructionCombiningPass, CFGSimplificationPass,
      SROA opts, NondetInitPass,
      InstructionCombiningPass, CFGSimplificationPass,
      DeadNondetElimPass, LowerSwitchPass, DeadInstEliminationPass,
      RemoveUnreachableBlocksPass] @
     (if InlineAll opts
      then [MarkInternalInlinePass, AlwaysInlinerPass, GlobalDCEPass] else []) @
     [RemoveUnreachableBlocksPass, DeadInstEliminationPass, GlobalDCEPass,
      LowerGvInitializers, UnifyFunctionExitNodesPass] @
     (if BOC opts
      then [LowerCstExprPass, CanAccessMemory] @
           (if InlineAll opts then [] else [ShadowBufferBoundsCheckFuncPars]) @
           [BufferBoundsCheck (InlineAll opts), NondetInitPass]
      else []) @
     (if IOC opts
      then [LowerCstExprPass, IntegerOverflowCheck (InlineAll opts)] else []) @
     [RemoveUnreachableBlocksPass] @
     (if MixedSem opts then [MixedSemantics, RemoveUnreachableBlocksPass] else []) @
     [VerifierPass] @
     (if OutputFilename opts = [] then []
      else if OutputAssembly opts then [PrintModulePass (OutputFilename opts)]
      else [BitcodeWriterPass (OutputFilename opts)])"
  unfolding build_pass_manager_def Let_def add_def
  by simp

text \<open>
  C1, at a module without a data layout and
  \<^verbatim>\<open>--default-data-layout e-p:64:64:64\<close>: the layout pass that heads
  the sequence is built from the module's empty string, and no pass in the
  sequence is built from the string given on the command line.
\<close>

theorem default_data_layout_unused:
  "getDataLayout module_plain = [] \<and>
   DefaultDataLayout (opts_default\<lparr>DefaultDataLayout := ''e-p:64:64:64''\<rparr>) = ''e-p:64:64:64'' \<and>
   hd (build_pass_manager (opts_default\<lparr>DefaultDataLayout := ''e-p:64:64:64''\<rparr>) module_plain)
     = DataLayout [] \<and>
   DataLayout ''e-p:64:64:64''
     \<notin> set (build_pass_manager (opts_default\<lparr>DefaultDataLayout := ''e-p:64:64:64''\<rparr>) module_plain)"
  by (simp add: build_pass_manager_sequence opts_default_def module_plain_def)

text \<open>
  C2, as the code has it: with both \<^verbatim>\<open>--boc\<close> and \<^verbatim>\<open>--ioc\<close> the
  sequence holds two constant-expression-lowering passes, one in each
  block: lowering, the bounds check, lowering again, the overflow check, in
  that order, and the second lowering directly before the overflow check.
\<close>

theorem lower_cst_expr_in_each_chain:
  assumes "BOC opts" and "IOC opts"
  shows "count_list (build_pass_manager opts module) LowerCstExprPass = 2 \<and>
         subseq [LowerCstExprPass, BufferBoundsCheck (InlineAll opts),
                 LowerCstExprPass, IntegerOverflowCheck (InlineAll opts)]
           (build_pass_manager opts module) \<and>
         sublist [LowerCstExprPass, IntegerOverflowCheck (InlineAll opts)]
           (build_pass_manager opts module)"
proof (intro conjI)
  show "count_list (build_pass_manager opts module) LowerCstExprPass = 2"
    using assms by (simp add: build_pass_manager_sequence)
  show "subseq [LowerCstExprPass, BufferBoundsCheck (InlineAll opts),
                LowerCstExprPass, IntegerOverflowCheck (InlineAll opts)]
          (build_pass_manager opts module)"
    using assms by (simp add: build_pass_manager_sequence)
  show "sublist [LowerCstExprPass, IntegerOverflowCheck (InlineAll opts)]
          (build_pass_manager opts module)"
    using assms by (simp add: build_pass_manager_sequence sublist_code)
qed

text \<open>The theorem for C2 at \<^verbatim>\<open>seapp --boc --ioc in.bc\<close>.\<close>

theorem lower_cst_expr_in_each_chain_witness:
  "BOC (opts_default\<lparr>BOC := True, IOC := True\<rparr>) \<and>
   IOC (opts_default\<lparr>BOC := True, IOC := True\<rparr>) \<and>
   count_list (build_pass_manager (opts_default\<lparr>BOC := True, IOC := True\<rparr>) module_plain)
     LowerCstExprPass = 2"
  using lower_cst_expr_in_each_chain
    [of "opts_default\<lparr>BOC := True, IOC := True\<rparr>" module_plain]
  by simp

text \<open>
  C2 as the specification words it fails at \<^verbatim>\<open>seapp --boc --ioc in.bc\<close>:
  the number of lowering passes is not one.
\<close>

theorem lower_cst_expr_not_shared:
  "BOC (opts_default\<lparr>BOC := True, IOC := True\<rparr>) \<and>
   IOC (opts_default\<lparr>BOC := True, IOC := True\<rparr>) \<and>
   count_list (build_pass_manager (opts_default\<lparr>BOC := True, IOC := True\<rparr>) module_plain)
     LowerCstExprPass \<noteq> 1"
  by (simp add: build_pass_manager_sequence opts_default_def)

text \<open>
  C3, as the code has it: the sequence holds one SSA-promotion pass, the
  aggregate pass comes after it, and no SSA-promotion pass comes after the
  aggregate pass.
\<close>

theorem one_ssa_promotion_then_aggregates:
  "count_list (build_pass_manager opts module) PromoteMemoryToRegisterPass = 1 \<and>
   subseq [PromoteMemoryToRegisterPass, SROA opts] (build_pass_manager opts module) \<and>
   \<not> subseq [SROA opts, PromoteMemoryToRegisterPass] (build_pass_manager opts module)"
  by (simp add: build_pass_manager_sequence)

text \<open>
  C3 as the specification words it fails at \<^verbatim>\<open>seapp in.bc\<close>: the
  sequence has no promotion, aggregate pass, promotion in that order.
\<close>

theorem no_second_ssa_promotion:
  "\<not> subseq [PromoteMemoryToRegisterPass, SROA opts_default, PromoteMemoryToRegisterPass]
       (build_pass_manager opts_default module_plain)"
  by (simp add: build_pass_manager_sequence opts_default_def module_plain_def)

text \<open>
  What follows the first occurrence of a pass is all that follows it when
  the part before does not hold the pass.
\<close>

lemma split_at_first:
  assumes "dropWhile (\<lambda>p. p \<noteq> v) xs = v # rest"
  shows "\<exists>pre. xs = pre @ [v] @ rest \<and> v \<notin> set pre"
proof -
  let ?pre = "takeWhile (\<lambda>p. p \<noteq> v) xs"
  have "xs = ?pre @ dropWhile (\<lambda>p. p \<noteq> v) xs" by simp
  with assms have "xs = ?pre @ [v] @ rest" by simp
  moreover have "v \<notin> set ?pre" by (auto dest: set_takeWhileD)
  ultimately show ?thesis by blast
qed

text \<open>
  C4, as the code has it: the verifier occurs once; nothing follows it when
  no output file is asked for, and with \<^verbatim>\<open>-o\<close> one pass follows it, the
  writer of the output (the printer under \<^verbatim>\<open>-S\<close>, else the bitcode
  writer).
\<close>

theorem verifier_last_but_writer:
  "\<exists>pre. build_pass_manager opts module =
          pre @ [VerifierPass] @
          (if OutputFilename opts = [] then []
           else if OutputAssembly opts then [PrintModulePass (OutputFilename opts)]
           else [BitcodeWriterPass (OutputFilename opts)]) \<and>
        VerifierPass \<notin> set pre"
  by (rule split_at_first) (simp add: build_pass_manager_sequence)

text \<open>
  C4 as the specification words it fails at \<^verbatim>\<open>seapp -o out.bc in.bc\<close>:
  the last pass of the sequence is not the verifier.
\<close>

theorem verifier_not_last_with_output:
  "last (build_pass_manager (opts_default\<lparr>OutputFilename := ''out.bc''\<rparr>) module_plain)
     \<noteq> VerifierPass"
  by (simp add: build_pass_manager_sequence opts_default_def)

text \<open>
  C5: with \<^verbatim>\<open>--boc\<close>, the shadow-parameter pass is in the sequence and
  comes before the bounds check when \<^verbatim>\<open>--horn-inline-all\<close> is not given,
  and is not in the sequence when it is given.
\<close>

theorem shadow_pass_unless_inlined:
  assumes "BOC opts"
  shows "(\<not> InlineAll opts \<longrightarrow>
            ShadowBufferBoundsCheckFuncPars \<in> set (build_pass_manager opts module) \<and>
            subseq [ShadowBufferBoundsCheckFuncPars, BufferBoundsCheck (InlineAll opts)]
              (build_pass_manager opts module)) \<and>
         (InlineAll opts \<longrightarrow>
            ShadowBufferBoundsCheckFuncPars \<notin> set (build_pass_manager opts module))"
  using assms by (simp add: build_pass_manager_sequence)

text \<open>
  The theorem for C5 at \<^verbatim>\<open>seapp --boc in.bc\<close> and at
  \<^verbatim>\<open>seapp --boc --horn-inline-all in.bc\<close>.
\<close>

theorem shadow_pass_unless_inlined_witness:
  "BOC (opts_default\<lparr>BOC := True\<rparr>) \<and>
   \<not> InlineAll (opts_default\<lparr>BOC := True\<rparr>) \<and>
   subseq [ShadowBufferBoundsCheckFuncPars, BufferBoundsCheck False]
     (build_pass_manager (opts_default\<lparr>BOC := True\<rparr>) module_plain) \<and>
   BOC (opts_default\<lparr>InlineAll := True, BOC := True\<rparr>) \<and>
   InlineAll (opts_default\<lparr>InlineAll := True, BOC := True\<rparr>) \<and>
   ShadowBufferBoundsCheckFuncPars
     \<notin> set (build_pass_manager (opts_default\<lparr>InlineAll := True, BOC := True\<rparr>) module_plain)"
  using shadow_pass_unless_inlined [of "opts_default\<lparr>BOC := True\<rparr>" module_plain]
    shadow_pass_unless_inlined [of "opts_default\<lparr>InlineAll := True, BOC := True\<rparr>" module_plain]
  by (simp add: opts_default_def)

text \<open>
  C6: without \<^verbatim>\<open>--boc\<close> and without \<^verbatim>\<open>--ioc\<close> the sequence holds no
  constant-expression lowering, no shadow-parameter pass, no bounds check
  and no overflow check.
\<close>

theorem no_instrumentation_without_flags:
  assumes "\<not> BOC opts" and "\<not> IOC opts"
  shows "LowerCstExprPass \<notin> set (build_pass_manager opts module) \<and>
         ShadowBufferBoundsCheckFuncPars \<notin> set (build_pass_manager opts module) \<and>
         (\<forall>b. BufferBoundsCheck b \<notin> set (build_pass_manager opts module)) \<and>
         (\<forall>b. IntegerOverflowCheck b \<notin> set (build_pass_manager opts module))"
  using assms by (simp add: build_pass_manager_sequence)

text \<open>The theorem for C6 at \<^verbatim>\<open>seapp in.bc\<close>.\<close>

theorem no_instrumentation_without_flags_witness:
  "\<not> BOC opts_default \<and> \<not> IOC opts_default \<and>
   LowerCstExprPass \<notin> set (build_pass_manager opts_default module_plain) \<and>
   ShadowBufferBoundsCheckFuncPars \<notin> set (build_pass_manager opts_default module_plain) \<and>
   (\<forall>b. BufferBoundsCheck b \<notin> set (build_pass_manager opts_default module_plain)) \<and>
   (\<forall>b. IntegerOverflowCheck b \<notin> set (build_pass_manager opts_default module_plain))"
  using no_instrumentation_without_flags [of opts_default module_plain]
  by (simp add: opts_default_def)

text \<open>
  C7: the pass that turns undefined values into nondeterministic ones comes
  directly after the SSA promotion and directly after the aggregate pass,
  each of which occurs once; the statements of \<^verbatim>\<open>main\<close> outside every
  \<^verbatim>\<open>if\<close> add it twice, so it occurs twice in every sequence, and a third
  time only inside the block of \<^verbatim>\<open>--boc\<close>.
\<close>

theorem nondet_init_directly_after_promotions:
  "sublist [PromoteMemoryToRegisterPass, NondetInitPass] (build_pass_manager opts module) \<and>
   sublist [SROA opts, NondetInitPass] (build_pass_manager opts module) \<and>
   count_list (build_pass_manager opts module) PromoteMemoryToRegisterPass = 1 \<and>
   count_list (build_pass_manager opts module) (SROA opts) = 1 \<and>
   count_list (build_pass_manager opts module) NondetInitPass = (if BOC opts then 3 else 2)"
proof (intro conjI)
  show "sublist [PromoteMemoryToRegisterPass, NondetInitPass] (build_pass_manager opts module)"
    by (simp add: build_pass_manager_sequence sublist_code)
  show "sublist [SROA opts, NondetInitPass] (build_pass_manager opts module)"
    by (simp add: build_pass_manager_sequence sublist_code)
  show "count_list (build_pass_manager opts module) PromoteMemoryToRegisterPass = 1"
    by (simp add: build_pass_manager_sequence)
  show "count_list (build_pass_manager opts module) (SROA opts) = 1"
    by (simp add: build_pass_manager_sequence)
  show "count_list (build_pass_manager opts module) NondetInitPass = (if BOC opts then 3 else 2)"
    by (simp add: build_pass_manager_sequence)
qed

text \<open>
  The theorem for C7 at \<^verbatim>\<open>seapp in.bc\<close> and at \<^verbatim>\<open>seapp --boc in.bc\<close>.
\<close>

theorem nondet_init_directly_after_promotions_witness:
  "count_list (build_pass_manager opts_default module_plain) NondetInitPass = 2 \<and>
   count_list (build_pass_manager (opts_default\<lparr>BOC := True\<rparr>) module_plain) NondetInitPass = 3 \<and>
   sublist [PromoteMemoryToRegisterPass, NondetInitPass]
     (build_pass_manager opts_default module_plain)"
  using nondet_init_directly_after_promotions [of opts_default module_plain]
    nondet_init_directly_after_promotions [of "opts_default\<lparr>BOC := True\<rparr>" module_plain]
  by (simp add: opts_default_def)

section \<open>Exit codes\<close>

text \<open>
  C8: when the reader gives no module, \<^verbatim>\<open>main\<close> returns 3 and the output
  file object has not been created, whatever the options; when the reader
  gives a module, the output file (if one is asked for) opens without an
  error message and the pass manager runs to its end, \<^verbatim>\<open>main\<close>
  returns 0.
\<close>

theorem exit_3_on_parse_failure_0_on_success:
  "(ParseIRFile env (InputFilename opts) = Inl err \<longrightarrow>
      returns (main env opts) = Some 3 \<and> output_file (main env opts) = None) \<and>
   (ParseIRFile env (InputFilename opts) = Inr module \<and>
    (OutputFilename opts = [] \<or> open_output env (OutputFilename opts) = []) \<and>
    run env (build_pass_manager opts module) module = Some module' \<longrightarrow>
      returns (main env opts) = Some 0)"
  by (auto simp: main_def)

text \<open>
  The theorem for C8 at \<^verbatim>\<open>seapp -o out.bc bad.bc\<close>, where
  \<^verbatim>\<open>bad.bc\<close> does not parse, and at \<^verbatim>\<open>seapp -o out.bc in.bc\<close>.
\<close>

theorem exit_3_on_parse_failure_0_on_success_witness:
  "ParseIRFile env_sample
     (InputFilename (opts_default\<lparr>InputFilename := ''bad.bc'', OutputFilename := ''out.bc''\<rparr>))
     = Inl ''expected top-level entity'' \<and>
   returns (main env_sample (opts_default\<lparr>InputFilename := ''bad.bc'', OutputFilename := ''out.bc''\<rparr>))
     = Some 3 \<and>
   output_file (main env_sample (opts_default\<lparr>InputFilename := ''bad.bc'', OutputFilename := ''out.bc''\<rparr>))
     = None \<and>
   ParseIRFile env_sample (InputFilename (opts_default\<lparr>OutputFilename := ''out.bc''\<rparr>))
     = Inr module_plain \<and>
   open_output env_sample (OutputFilename (opts_default\<lparr>OutputFilename := ''out.bc''\<rparr>)) = [] \<and>
   run env_sample (build_pass_manager (opts_default\<lparr>OutputFilename := ''out.bc''\<rparr>) module_plain)
     module_plain = Some module_plain \<and>
   returns (main env_sample (opts_default\<lparr>OutputFilename := ''out.bc''\<rparr>)) = Some 0"
  using exit_3_on_parse_failure_0_on_success
      [of env_sample "opts_default\<lparr>InputFilename := ''bad.bc'', OutputFilename := ''out.bc''\<rparr>"
          "''expected top-level entity''" module_plain module_plain]
    exit_3_on_parse_failure_0_on_success
      [of env_sample "opts_default\<lparr>OutputFilename := ''out.bc''\<rparr>"
          "''expected top-level entity''" module_plain module_plain]
  by (simp add: env_sample_def opts_default_def)

section \<open>Determinism of the construction\<close>

text \<open>
  C9, as the code has it: two constructions give the same sequence when the
  options are the same configuration, name the same output file with the
  same \<^verbatim>\<open>-S\<close>, and the two modules declare the same data layout. The
  input file name, the rest of the module and the environment have no
  influence.
\<close>

theorem same_sequence_for_same_configuration_layout_output:
  assumes "same_configuration a b"
    and "OutputFilename a = OutputFilename b"
    and "OutputAssembly a = OutputAssembly b"
    and "getDataLayout m = getDataLayout m'"
  shows "build_pass_manager a m = build_pass_manager b m'"
  using assms unfolding same_configuration_def
  by (simp add: build_pass_manager_sequence)

text \<open>
  The theorem for C9 at two runs that differ in the input file name and in
  the body of the module.
\<close>

theorem same_sequence_for_same_configuration_layout_output_witness:
  "same_configuration opts_default (opts_default\<lparr>InputFilename := ''other.bc''\<rparr>) \<and>
   OutputFilename opts_default = OutputFilename (opts_default\<lparr>InputFilename := ''other.bc''\<rparr>) \<and>
   OutputAssembly opts_default = OutputAssembly (opts_default\<lparr>InputFilename := ''other.bc''\<rparr>) \<and>
   getDataLayout module_plain = getDataLayout (module_plain\<lparr>IR := ''declare void @f()''\<rparr>) \<and>
   build_pass_manager opts_default module_plain =
     build_pass_manager (opts_default\<lparr>InputFilename := ''other.bc''\<rparr>)
       (module_plain\<lparr>IR := ''declare void @f()''\<rparr>)"
  using same_sequence_for_same_configuration_layout_output
    [of opts_default "opts_default\<lparr>InputFilename := ''other.bc''\<rparr>"
        module_plain "module_plain\<lparr>IR := ''declare void @f()''\<rparr>"]
  by (simp add: same_configuration_def)

text \<open>
  C9 as the specification words it fails: \<^verbatim>\<open>seapp in.bc\<close> and
  \<^verbatim>\<open>seapp -o out.bc in.bc\<close> are the same configuration and give
  different sequences on the same module, and \<^verbatim>\<open>seapp in.bc\<close> gives
  different sequences on a module without and a module with a data layout.
\<close>

theorem sequence_depends_on_output_and_module:
  "same_configuration opts_default (opts_default\<lparr>OutputFilename := ''out.bc''\<rparr>) \<and>
   build_pass_manager opts_default module_plain
     \<noteq> build_pass_manager (opts_default\<lparr>OutputFilename := ''out.bc''\<rparr>) module_plain \<and>
   build_pass_manager opts_default module_plain
     \<noteq> build_pass_manager opts_default module_layout"
  by (simp add: same_configuration_def build_pass_manager_sequence
      opts_default_def module_plain_def module_layout_def)

section \<open>Finding the formula files\<close>

text \<open>A length below \<open>2^31\<close> survives the conversion to \<^verbatim>\<open>int\<close>.\<close>

lemma sint_strlen: "n < 2 ^ 31 \<Longrightarrow> sint (word_of_nat n :: 32 word) = int n"
  by (simp add: signed_of_nat signed_take_bit_int_eq_self)

text \<open>
  The comparison with the tail of the string, and with it the test of the
  loop body, is the test that the string ends in \<^verbatim>\<open>.smt2\<close>.
\<close>

lemma strcmp_tail:
  assumes "5 \<le> length s"
  shows "(drop (length s - 5) s = ''.smt2'') = suffix ''.smt2'' s"
proof
  assume "drop (length s - 5) s = ''.smt2''"
  then show "suffix ''.smt2'' s"
    by (metis suffix_drop)
next
  assume "suffix ''.smt2'' s"
  then obtain zs where zs: "s = zs @ ''.smt2''"
    by (auto simp: suffix_def)
  then show "drop (length s - 5) s = ''.smt2''"
    by simp
qed

lemma test_smt2:
  assumes "length s < 2 ^ 31"
  shows "(let len = sint (word_of_nat (length s) :: 32 word)
          in len \<ge> 5 \<and> drop (nat (len - 5)) s = ''.smt2'') = ends_in_smt2 s"
proof (cases "5 \<le> length s")
  case True
  then have "nat (int (length s) - 5) = length s - 5" by simp
  with True assms show ?thesis
    by (simp add: sint_strlen ends_in_smt2_def strcmp_tail)
next
  case False
  with assms show ?thesis
    by (simp add: sint_strlen ends_in_smt2_def)
qed

lemma loop_spec:
  assumes "argc = int (length argv)" and "\<forall>s\<in>set argv. length s < 2 ^ 31"
  shows "0 \<le> i \<Longrightarrow> i \<le> argc \<Longrightarrow> num1 \<le> num \<Longrightarrow>
   getSmtFileName_loop num argc argv num1 i =
     (let found = filter ends_in_smt2 (drop (nat i) argv)
      in if nat (num - num1) < length found then Some (found ! nat (num - num1)) else None)"
proof (induction "nat (argc - i)" arbitrary: i num1)
  case 0
  then have "\<not> i < argc" by simp
  moreover from 0 assms have "drop (nat i) argv = []" by simp
  ultimately show ?case
    by (subst getSmtFileName_loop.simps) simp
next
  case (Suc k)
  let ?a = "argv ! nat i"
  from Suc have lt: "i < argc" by simp
  with Suc.prems assms have "nat i < length argv" by simp
  then have dr: "drop (nat i) argv = ?a # drop (nat (i + 1)) argv"
    and mem: "?a \<in> set argv"
    using Suc.prems by (simp_all add: Cons_nth_drop_Suc nat_add_distrib)
  from mem assms have "length ?a < 2 ^ 31" by blast
  then have test:
    "(5 \<le> sint (word_of_nat (length ?a) :: 32 word) \<and>
      drop (nat (sint (word_of_nat (length ?a) :: 32 word) - 5)) ?a = ''.smt2'') = ends_in_smt2 ?a"
    using test_smt2 [of ?a] by (simp add: Let_def)
  have k: "k = nat (argc - (i + 1))" using Suc.hyps(2) by simp
  have step: "getSmtFileName_loop num argc argv n (i + 1) =
     (let found = filter ends_in_smt2 (drop (nat (i + 1)) argv)
      in if nat (num - n) < length found then Some (found ! nat (num - n)) else None)"
    if "n \<le> num" for n
    using Suc.hyps(1) [OF k _ _ that] Suc.prems lt by simp
  have unfold: "getSmtFileName_loop num argc argv num1 i =
     (if ends_in_smt2 ?a then
        (if num1 = num then Some ?a
         else getSmtFileName_loop num argc argv (num1 + 1) (i + 1))
      else getSmtFileName_loop num argc argv num1 (i + 1))"
    using lt by (subst getSmtFileName_loop.simps) (simp add: Let_def test)
  show ?case
  proof (cases "ends_in_smt2 ?a")
    case False
    then show ?thesis
      by (simp add: unfold step [OF Suc.prems(3)] dr)
  next
    case True
    show ?thesis
    proof (cases "num1 = num")
      case eq: True
      with True unfold show ?thesis by (simp add: dr)
    next
      case neq: False
      with Suc.prems have le: "num1 + 1 \<le> num" by simp
      then have "nat (num - num1) = Suc (nat (num - (num1 + 1)))" by simp
      with True neq show ?thesis
        by (simp add: unfold step [OF le] dr)
    qed
  qed
qed

text \<open>
  C10: for a positive \<open>num\<close>, an argument vector of \<open>argc\<close> strings, each
  shorter than \<open>2^31\<close> characters (the operating system hands over no
  longer ones), \<open>getSmtFileName\<close> returns the \<open>num\<close>-th of the arguments
  at positions \<open>1..argc-1\<close> that have length at least 5 and end in
  \<^verbatim>\<open>.smt2\<close>, and \<^verbatim>\<open>NULL\<close> when there are fewer than \<open>num\<close> of them.
\<close>

theorem getSmtFileName_nth:
  assumes "0 < num" and "argc = int (length argv)"
    and "\<forall>s\<in>set argv. length s < 2 ^ 31"
  shows "getSmtFileName num argc argv = nth_smt2_argument (nat num) argv"
proof (cases "argv = []")
  case True
  with assms have "getSmtFileName_loop num argc argv 1 1 = None"
    by (subst getSmtFileName_loop.simps) simp
  with True assms show ?thesis
    by (simp add: getSmtFileName_def nth_smt2_argument_def)
next
  case False
  then have "1 \<le> int (length argv)" by (cases argv) simp_all
  with assms have "getSmtFileName_loop num argc argv 1 1 =
     (let found = filter ends_in_smt2 (drop (nat 1) argv)
      in if nat (num - 1) < length found then Some (found ! nat (num - 1)) else None)"
    by (intro loop_spec) simp_all
  moreover from assms have "nat (num - 1) = nat num - 1"
    and "(nat num - 1 < n) = (nat num \<le> n)" for n
    by auto
  ultimately show ?thesis using assms
    by (simp add: getSmtFileName_def nth_smt2_argument_def Let_def)
qed

text \<open>
  The theorem for C10 at \<^verbatim>\<open>aeval a.smt2 --skol .smt2 smt2 b.smt2\<close>: the
  second file is \<^verbatim>\<open>.smt2\<close>, the third \<^verbatim>\<open>b.smt2\<close>, and there is no
  fourth.
\<close>

theorem getSmtFileName_nth_witness:
  "(0::int) < 2 \<and>
   (6::int) = int (length [''aeval'', ''a.smt2'', ''--skol'', ''.smt2'', ''smt2'', ''b.smt2'']) \<and>
   list_all (\<lambda>s. length s < 2 ^ 31)
     [''aeval'', ''a.smt2'', ''--skol'', ''.smt2'', ''smt2'', ''b.smt2''] \<and>
   getSmtFileName 2 6 [''aeval'', ''a.smt2'', ''--skol'', ''.smt2'', ''smt2'', ''b.smt2'']
     = Some ''.smt2'' \<and>
   getSmtFileName 3 6 [''aeval'', ''a.smt2'', ''--skol'', ''.smt2'', ''smt2'', ''b.smt2'']
     = Some ''b.smt2'' \<and>
   getSmtFileName 4 6 [''aeval'', ''a.smt2'', ''--skol'', ''.smt2'', ''smt2'', ''b.smt2'']
     = None"
  using getSmtFileName_nth
      [of 2 6 "[''aeval'', ''a.smt2'', ''--skol'', ''.smt2'', ''smt2'', ''b.smt2'']"]
    getSmtFileName_nth
      [of 3 6 "[''aeval'', ''a.smt2'', ''--skol'', ''.smt2'', ''smt2'', ''b.smt2'']"]
    getSmtFileName_nth
      [of 4 6 "[''aeval'', ''a.smt2'', ''--skol'', ''.smt2'', ''smt2'', ''b.smt2'']"]
  by (simp add: nth_smt2_argument_def ends_in_smt2_def suffix_to_prefix)

end
